theory Spec2Isabelle
  imports Main "HOL-Library.Word"
begin

section \<open>panda\_math: the packaging manifest \<^verbatim>\<open>setup.py\<close>\<close>

text \<open>
  The repository is one Python module, \<^verbatim>\<open>setup.py\<close>:
  \<^verbatim>\<open>
  from setuptools import setup, find_packages

  setup(
      name="panda_math",  # Must be unique on PyPI
      version="0.1.1",
      packages=find_packages(),
      install_requires=["numpy"],
      author="Colin Politi",
      author_email="urboycolinthepanda@gmail.com",
      description="A Vector, Matrix, and transformation utilities for 2D, 3D graphics, and game development.",
      long_description=open("README.md", encoding="utf-8").read(),
      long_description_content_type="text/markdown",
      url="https://github.com/ColinThePanda/panda_math",
      classifiers=[
          "Programming Language :: Python :: 3",
          "License :: OSI Approved :: MIT License",
          "Operating System :: OS Independent",
      ],
      python_requires=">=3.6",
  )
  \<close>
  Evaluating the module imports two names from setuptools, evaluates the keyword
  arguments of the call from top to bottom (two of them, \<^verbatim>\<open>packages\<close> and
  \<^verbatim>\<open>long_description\<close>, read the working directory) and then calls
  \<^verbatim>\<open>setup\<close>. The model below makes the working directory, the installed
  setuptools and every exception explicit.
\<close>

subsection \<open>Python values\<close>

text \<open>
  A Python \<^verbatim>\<open>str\<close> is a sequence of Unicode code points; a \<^verbatim>\<open>bytes\<close>
  is a sequence of octets. String literals of the source are ASCII, written with
  \<open>py_str\<close>.
\<close>

type_synonym str = "nat list"
type_synonym byte = "8 word"

definition py_str :: "string \<Rightarrow> str" where
  "py_str s = map of_char s"

definition ascii :: "string \<Rightarrow> byte list" where
  "ascii s = map of_char s"

text \<open>The values passed as keyword arguments: a string or a list of strings.\<close>

datatype pyval = Str str | StrList "str list"

type_synonym kwargs = "(string \<times> pyval) list"

subsection \<open>The working directory\<close>

text \<open>
  A directory lists its entries by name. An entry is a regular file with its bytes, a
  directory, or a symbolic link that loops. A regular file also records what happens when
  the process running the module opens and reads it: it succeeds, it is refused
  (\<^verbatim>\<open>EACCES\<close>), or it fails with another operating-system error, named by its
  \<^verbatim>\<open>errno\<close>. The module is run from the directory that holds it, so this directory
  is both the working directory and the first entry of the import path.
\<close>

datatype access = Readable | Denied | Failing string

datatype node = File access "byte list" | Dir "(string \<times> node) list" | Symlink_loop

type_synonym directory = "(string \<times> node) list"

text \<open>
  The exceptions that can end the evaluation of the module. \<open>SetuptoolsError\<close> carries
  the name of an exception raised inside a setuptools function and \<open>OSError\<close> the
  \<^verbatim>\<open>errno\<close> of the failure; \<open>ModuleNotFoundError\<close> is raised by the import
  statement, the others by the module's own call of \<^verbatim>\<open>open\<close>.
\<close>

datatype error =
    ModuleNotFoundError
  | FileNotFoundError
  | IsADirectoryError
  | PermissionError
  | OSError string
  | UnicodeDecodeError
  | SetuptoolsError string

subsection \<open>\<^verbatim>\<open>open("README.md", encoding="utf-8").read()\<close>\<close>

text \<open>
  The strict UTF-8 decoder of Python: shortest form only, no surrogates, nothing above
  U+10FFFF. \<open>None\<close> stands for \<^verbatim>\<open>UnicodeDecodeError\<close>.
\<close>

definition cont :: "byte \<Rightarrow> bool" where
  "cont b = (0x80 \<le> b \<and> b \<le> 0xBF)"

definition tail_bits :: "byte \<Rightarrow> nat" where
  "tail_bits b = unat b - 0x80"

fun utf_8_decode :: "byte list \<Rightarrow> str option" where
  "utf_8_decode [] = Some []"
| "utf_8_decode (b # bs) =
    (if b < 0x80 then map_option ((#) (unat b)) (utf_8_decode bs)
     else if 0xC2 \<le> b \<and> b \<le> 0xDF then
       (case bs of
          c1 # r \<Rightarrow>
            if cont c1
            then map_option ((#) ((unat b - 0xC0) * 64 + tail_bits c1)) (utf_8_decode r)
            else None
        | _ \<Rightarrow> None)
     else if 0xE0 \<le> b \<and> b \<le> 0xEF then
       (case bs of
          c1 # c2 # r \<Rightarrow>
            if (if b = 0xE0 then 0xA0 else 0x80) \<le> c1
               \<and> c1 \<le> (if b = 0xED then 0x9F else 0xBF) \<and> cont c2
            then map_option
                   ((#) ((unat b - 0xE0) * 4096 + tail_bits c1 * 64 + tail_bits c2))
                   (utf_8_decode r)
            else None
        | _ \<Rightarrow> None)
     else if 0xF0 \<le> b \<and> b \<le> 0xF4 then
       (case bs of
          c1 # c2 # c3 # r \<Rightarrow>
            if (if b = 0xF0 then 0x90 else 0x80) \<le> c1
               \<and> c1 \<le> (if b = 0xF4 then 0x8F else 0xBF) \<and> cont c2 \<and> cont c3
            then map_option
                   ((#) ((unat b - 0xF0) * 262144 + tail_bits c1 * 4096
                         + tail_bits c2 * 64 + tail_bits c3))
                   (utf_8_decode r)
            else None
        | _ \<Rightarrow> None)
     else None)"

text \<open>
  Text mode with the default \<^verbatim>\<open>newline=None\<close>: on reading, \<^verbatim>\<open>\r\n\<close> and a lone
  \<^verbatim>\<open>\r\<close> become \<^verbatim>\<open>\n\<close>.
\<close>

fun universal_newlines :: "str \<Rightarrow> str" where
  "universal_newlines [] = []"
| "universal_newlines (c # cs) =
    (if c = 13 then
       (case cs of
          d # ds \<Rightarrow> if d = 10 then 10 # universal_newlines ds else 10 # universal_newlines cs
        | [] \<Rightarrow> [10])
     else c # universal_newlines cs)"

text \<open>
  \<^verbatim>\<open>open(path, encoding="utf-8").read()\<close> for a path that is a plain name, resolved
  in the working directory. The operating system refuses a missing name, a directory, a
  looping link and a file the process may not read; the bytes of a file that is read are
  then decoded.
\<close>

definition open_read :: "directory \<Rightarrow> string \<Rightarrow> error + str" where
  "open_read cwd path =
    (case map_of cwd path of
       None \<Rightarrow> Inl FileNotFoundError
     | Some (Dir _) \<Rightarrow> Inl IsADirectoryError
     | Some Symlink_loop \<Rightarrow> Inl (OSError ''ELOOP'')
     | Some (File Denied _) \<Rightarrow> Inl PermissionError
     | Some (File (Failing errno) _) \<Rightarrow> Inl (OSError errno)
     | Some (File Readable bs) \<Rightarrow>
         (case utf_8_decode bs of
            None \<Rightarrow> Inl UnicodeDecodeError
          | Some text \<Rightarrow> Inr (universal_newlines text)))"

subsection \<open>setuptools\<close>

text \<open>
  setuptools is not part of the repository. The module uses two of its functions, taken
  here as parameters, and both read the working directory: \<^verbatim>\<open>find_packages()\<close>
  returns package names or raises; \<^verbatim>\<open>setup\<close>, called with the keyword arguments
  (the field \<open>setup_fn\<close>), also reads the configuration files that lie beside the
  module, and returns or raises.

  The import statement of line 1 searches the directory of the module first, so what it
  finds depends on that directory too: \<open>import_setuptools\<close> gives the setuptools the
  statement binds, or \<open>None\<close> where it finds none.
\<close>

record setuptools =
  find_packages :: "directory \<Rightarrow> string + str list"
  setup_fn :: "directory \<Rightarrow> kwargs \<Rightarrow> string + unit"

record env =
  import_setuptools :: "directory \<Rightarrow> setuptools option"
  cwd :: directory

subsection \<open>The module\<close>

text \<open>
  Lines 4 to 19: the keyword arguments, evaluated in the order written. The call of
  \<^verbatim>\<open>find_packages\<close> (line 6) comes before the call of \<^verbatim>\<open>open\<close> (line 11).
\<close>

definition setup_kwargs :: "setuptools \<Rightarrow> directory \<Rightarrow> error + kwargs" where
  "setup_kwargs st d =
    (case find_packages st d of
       Inl e \<Rightarrow> Inl (SetuptoolsError e)
     | Inr pkgs \<Rightarrow>
         (case open_read d ''README.md'' of
            Inl e \<Rightarrow> Inl e
          | Inr text \<Rightarrow>
              Inr [(''name'', Str (py_str ''panda_math'')),
                   (''version'', Str (py_str ''0.1.1'')),
                   (''packages'', StrList pkgs),
                   (''install_requires'', StrList [py_str ''numpy'']),
                   (''author'', Str (py_str ''Colin Politi'')),
                   (''author_email'', Str (py_str ''urboycolinthepanda@gmail.com'')),
                   (''description'', Str (py_str
                      ''A Vector, Matrix, and transformation utilities for 2D, 3D graphics, and game development.'')),
                   (''long_description'', Str text),
                   (''long_description_content_type'', Str (py_str ''text/markdown'')),
                   (''url'', Str (py_str ''https://github.com/ColinThePanda/panda_math'')),
                   (''classifiers'', StrList
                      [py_str ''Programming Language :: Python :: 3'',
                       py_str ''License :: OSI Approved :: MIT License'',
                       py_str ''Operating System :: OS Independent'']),
                   (''python_requires'', Str (py_str ''>=3.6''))]))"

text \<open>
  The whole module: the import (line 1), the arguments, the call. \<open>Inr kw\<close> says that
  \<^verbatim>\<open>setup\<close> was called with the keyword arguments \<open>kw\<close> and returned.
\<close>

definition setup_py :: "env \<Rightarrow> error + kwargs" where
  "setup_py e =
    (case import_setuptools e (cwd e) of
       None \<Rightarrow> Inl ModuleNotFoundError
     | Some st \<Rightarrow>
         (case setup_kwargs st (cwd e) of
            Inl x \<Rightarrow> Inl x
          | Inr kw \<Rightarrow>
              (case setup_fn st (cwd e) kw of
                 Inl x \<Rightarrow> Inl (SetuptoolsError x)
               | Inr _ \<Rightarrow> Inr kw)))"

subsection \<open>The reference behaviour of \<^verbatim>\<open>find_packages\<close>\<close>

text \<open>
  Modelled from the spec: \<^verbatim>\<open>find_packages\<close> belongs to setuptools and is not under
  \<^verbatim>\<open>src/\<close>. The claims describe it as returning the package directories, those
  with an \<^verbatim>\<open>__init__.py\<close>. As setuptools documents it, with the default arguments: a
  directory is a package when its name has no dot and it holds a regular file
  \<^verbatim>\<open>__init__.py\<close>; the walk lists the packages of a directory, then descends into
  each of them, and never enters a directory that is not a package.
\<close>

definition looks_like_package :: "directory \<Rightarrow> bool" where
  "looks_like_package d =
    (case map_of d ''__init__.py'' of Some (File _ _) \<Rightarrow> True | _ \<Rightarrow> False)"

definition package_dirs :: "directory \<Rightarrow> (string \<times> directory) list" where
  "package_dirs d =
    [(name, sub). (name, Dir sub) \<leftarrow> d, CHR ''.'' \<notin> set name, looks_like_package sub]"

lemma package_dirs_smaller:
  "(name, sub) \<in> set (package_dirs d) \<Longrightarrow>
     size_list (size_prod (\<lambda>_. 0) size) sub < size_list (size_prod (\<lambda>_. 0) size) d"
  by (induction d) (auto simp: package_dirs_def split: node.splits if_splits)

function find_iter :: "string \<Rightarrow> directory \<Rightarrow> string list" where
  "find_iter prefix d =
     map (\<lambda>(name, sub). prefix @ name) (package_dirs d)
     @ concat (map (\<lambda>(name, sub). find_iter (prefix @ name @ ''.'') sub) (package_dirs d))"
  by pat_completeness auto
termination
  by (relation "measure (\<lambda>(p, d). size_list (size_prod (\<lambda>_. 0) size) d)")
     (auto dest: package_dirs_smaller)

declare find_iter.simps [simp del]

definition find_packages_default :: "directory \<Rightarrow> str list" where
  "find_packages_default d = map py_str (find_iter [] d)"

text \<open>
  A setuptools whose \<^verbatim>\<open>find_packages\<close> is the reference one and whose
  \<^verbatim>\<open>setup\<close> returns.
\<close>

definition setuptools_default :: setuptools where
  "setuptools_default =
     \<lparr>find_packages = (\<lambda>d. Inr (find_packages_default d)),
      setup_fn = (\<lambda>d kw. Inr ())\<rparr>"

subsection \<open>The minimum-version constraint\<close>

text \<open>
  Modelled from the spec: whether a Python version satisfies \<^verbatim>\<open>python_requires\<close> is
  decided by the installer, not under \<^verbatim>\<open>src/\<close>. The spec calls the field a minimum
  language runtime version: a constraint \<^verbatim>\<open>>=N.N...\<close> holds of the versions at or
  above the release it names, releases compared number by number, a missing number
  counting as 0. Any other text is not a minimum-version constraint (\<open>None\<close>).
\<close>

definition digit :: "nat \<Rightarrow> bool" where
  "digit c = (48 \<le> c \<and> c \<le> 57)"

fun release_segments :: "nat option \<Rightarrow> str \<Rightarrow> nat list option" where
  "release_segments cur [] = (case cur of None \<Rightarrow> None | Some n \<Rightarrow> Some [n])"
| "release_segments cur (c # cs) =
    (if digit c then
       release_segments (Some (10 * (case cur of None \<Rightarrow> 0 | Some n \<Rightarrow> n) + (c - 48))) cs
     else if c = 46 then
       (case cur of None \<Rightarrow> None | Some n \<Rightarrow> map_option ((#) n) (release_segments None cs))
     else None)"

fun release_le :: "nat list \<Rightarrow> nat list \<Rightarrow> bool" where
  "release_le [] ys = True"
| "release_le (x # xs) [] = (x = 0 \<and> release_le xs [])"
| "release_le (x # xs) (y # ys) = (x < y \<or> (x = y \<and> release_le xs ys))"

definition minimum_version :: "str \<Rightarrow> nat list option" where
  "minimum_version spec =
    (if take 2 spec = py_str ''>='' then release_segments None (drop 2 spec) else None)"

definition satisfies :: "nat list \<Rightarrow> str \<Rightarrow> bool option" where
  "satisfies v spec = map_option (\<lambda>r. release_le r v) (minimum_version spec)"

subsection \<open>Working directories used as examples\<close>

text \<open>
  The repository as supplied holds \<^verbatim>\<open>setup.py\<close> alone; a checkout with a
  readable \<^verbatim>\<open>README.md\<close> beside it is the directory the module is written for.
\<close>

definition repository :: "byte list \<Rightarrow> directory" where
  "repository src = [(''setup.py'', File Readable src)]"

definition checkout :: "byte list \<Rightarrow> byte list \<Rightarrow> directory" where
  "checkout src readme =
     [(''setup.py'', File Readable src), (''README.md'', File Readable readme)]"

text \<open>
  Environments: the checkout and the repository as supplied, each with the reference
  setuptools on the import path; the repository as supplied with no setuptools to
  import; and a setuptools whose \<^verbatim>\<open>setup\<close> raises. The bytes of
  \<^verbatim>\<open>setup.py\<close> itself play no part in the evaluation and are left empty.
\<close>

definition env_checkout :: env where
  "env_checkout =
     \<lparr>import_setuptools = (\<lambda>d. Some setuptools_default),
      cwd = checkout [] (ascii ''# panda_math'')\<rparr>"

definition env_repository :: env where
  "env_repository =
     \<lparr>import_setuptools = (\<lambda>d. Some setuptools_default), cwd = repository []\<rparr>"

definition env_no_setuptools :: env where
  "env_no_setuptools = \<lparr>import_setuptools = (\<lambda>d. None), cwd = repository []\<rparr>"

definition setuptools_failing :: setuptools where
  "setuptools_failing =
     setuptools_default\<lparr>setup_fn := (\<lambda>d kw. Inl ''DistutilsSetupError'')\<rparr>"

subsection \<open>Where an exception comes from\<close>

text \<open>
  The exceptions raised by the module's own code, that is by its call
  \<^verbatim>\<open>open("README.md", encoding="utf-8").read()\<close>, as opposed to those that come
  from setuptools: its absence at the import, or an exception raised inside one of its
  functions.
\<close>

fun own_error :: "error \<Rightarrow> bool" where
  "own_error ModuleNotFoundError = False"
| "own_error FileNotFoundError = True"
| "own_error IsADirectoryError = True"
| "own_error PermissionError = True"
| "own_error (OSError _) = True"
| "own_error UnicodeDecodeError = True"
| "own_error (SetuptoolsError _) = False"

section \<open>Properties\<close>

subsection \<open>Facts about the reference setuptools and the example directories\<close>

lemma find_iter_no_packages: "package_dirs d = [] \<Longrightarrow> find_iter prefix d = []"
  by (simp add: find_iter.simps)

lemma find_packages_default_empty:
  "package_dirs d = [] \<Longrightarrow> find_packages_default d = []"
  by (simp add: find_packages_default_def find_iter_no_packages)

lemma package_dirs_checkout: "package_dirs (checkout src readme) = []"
  by (simp add: package_dirs_def checkout_def)

lemma package_dirs_repository: "package_dirs (repository src) = []"
  by (simp add: package_dirs_def repository_def)

lemma find_packages_repository:
  "find_packages setuptools_default (repository src) = Inr []"
  by (simp add: setuptools_default_def find_packages_default_empty package_dirs_repository)

lemma find_packages_checkout:
  "find_packages setuptools_default (checkout src readme) = Inr []"
  by (simp add: setuptools_default_def find_packages_default_empty package_dirs_checkout)

lemma setup_fn_default: "setup_fn setuptools_default d kw = Inr ()"
  by (simp add: setuptools_default_def)

lemma open_read_checkout:
  "open_read (checkout src readme) ''README.md'' =
     (case utf_8_decode readme of
        None \<Rightarrow> Inl UnicodeDecodeError
      | Some text \<Rightarrow> Inr (universal_newlines text))"
  by (simp add: open_read_def checkout_def)

lemma open_read_repository:
  "open_read (repository src) ''README.md'' = Inl FileNotFoundError"
  by (simp add: open_read_def repository_def)

lemma utf_8_decode_example:
  "utf_8_decode (ascii ''# panda_math'') = Some (py_str ''# panda_math'')"
  by (simp add: ascii_def py_str_def)

lemma universal_newlines_example:
  "universal_newlines (py_str ''# panda_math'') = py_str ''# panda_math''"
  by (simp add: py_str_def)

lemma utf_8_decode_a: "utf_8_decode (ascii ''a'') = Some (py_str ''a'')"
  by (simp add: ascii_def py_str_def)

lemma utf_8_decode_b: "utf_8_decode (ascii ''b'') = Some (py_str ''b'')"
  by (simp add: ascii_def py_str_def)

lemma checkout_call:
  "utf_8_decode readme = Some t \<Longrightarrow>
     \<exists>kw. setup_kwargs setuptools_default (checkout src readme) = Inr kw"
  by (simp add: setup_kwargs_def find_packages_checkout open_read_checkout)

lemma example_call:
  "\<exists>kw. setup_kwargs setuptools_default (checkout [] (ascii ''# panda_math'')) = Inr kw"
  by (rule checkout_call) (rule utf_8_decode_example)

subsection \<open>How the arguments are evaluated\<close>

lemma open_read_Inr:
  "open_read d p = Inr text \<longleftrightarrow>
     (\<exists>bs t. map_of d p = Some (File Readable bs) \<and> utf_8_decode bs = Some t
        \<and> text = universal_newlines t)"
  by (auto simp: open_read_def split: option.splits node.splits access.splits)

lemma open_read_own_error: "open_read d p = Inl x \<Longrightarrow> own_error x"
  by (auto simp: open_read_def split: option.splits node.splits access.splits)

lemma setup_kwargs_Inr:
  "setup_kwargs st d = Inr kw \<Longrightarrow>
     \<exists>pkgs text. find_packages st d = Inr pkgs \<and> open_read d ''README.md'' = Inr text
       \<and> map_of kw ''packages'' = Some (StrList pkgs)
       \<and> map_of kw ''long_description'' = Some (Str text)"
  by (auto simp: setup_kwargs_def split: sum.splits)

lemma setup_kwargs_reached:
  "find_packages st d = Inr pkgs \<Longrightarrow> open_read d ''README.md'' = Inr text \<Longrightarrow>
     \<exists>kw. setup_kwargs st d = Inr kw"
  by (simp add: setup_kwargs_def)

lemma setup_kwargs_open_error:
  "find_packages st d = Inr pkgs \<Longrightarrow> open_read d ''README.md'' = Inl x \<Longrightarrow>
     setup_kwargs st d = Inl x"
  by (simp add: setup_kwargs_def)

lemma setup_kwargs_Inl:
  "setup_kwargs st d = Inl x \<Longrightarrow>
     (\<exists>n. find_packages st d = Inl n \<and> x = SetuptoolsError n)
     \<or> open_read d ''README.md'' = Inl x"
  by (auto simp: setup_kwargs_def split: sum.splits)


subsection \<open>The constant arguments\<close>

text \<open>
  C4. The distributable unit is named exactly \<^verbatim>\<open>panda_math\<close> and carries version
  exactly \<^verbatim>\<open>0.1.1\<close>: whenever the module calls \<^verbatim>\<open>setup\<close>, the
  \<^verbatim>\<open>name\<close> argument is the string \<^verbatim>\<open>panda_math\<close> and the
  \<^verbatim>\<open>version\<close> argument is the string \<^verbatim>\<open>0.1.1\<close>.
\<close>

theorem manifest_name_version:
  "setup_kwargs st d = Inr kw \<Longrightarrow>
     map_of kw ''name'' = Some (Str (py_str ''panda_math''))
     \<and> map_of kw ''version'' = Some (Str (py_str ''0.1.1''))"
  by (auto simp: setup_kwargs_def split: sum.splits)

theorem manifest_name_version_witness:
  "\<exists>kw. setup_kwargs setuptools_default (checkout [] (ascii ''# panda_math'')) = Inr kw
     \<and> map_of kw ''name'' = Some (Str (py_str ''panda_math''))
     \<and> map_of kw ''version'' = Some (Str (py_str ''0.1.1''))"
proof -
  obtain kw where
    h: "setup_kwargs setuptools_default (checkout [] (ascii ''# panda_math'')) = Inr kw"
    using example_call by blast
  from manifest_name_version [OF h] h show ?thesis by blast
qed

text \<open>
  C5. The manifest declares exactly one installation dependency: whenever the module
  calls \<^verbatim>\<open>setup\<close>, the \<^verbatim>\<open>install_requires\<close> argument is the one-element
  list holding the string \<^verbatim>\<open>numpy\<close>, and nothing else.
\<close>

theorem manifest_install_requires:
  "setup_kwargs st d = Inr kw \<Longrightarrow>
     map_of kw ''install_requires'' = Some (StrList [py_str ''numpy''])"
  by (auto simp: setup_kwargs_def split: sum.splits)

theorem manifest_install_requires_witness:
  "\<exists>kw. setup_kwargs setuptools_default (checkout [] (ascii ''# panda_math'')) = Inr kw
     \<and> map_of kw ''install_requires'' = Some (StrList [py_str ''numpy''])"
proof -
  obtain kw where
    h: "setup_kwargs setuptools_default (checkout [] (ascii ''# panda_math'')) = Inr kw"
    using example_call by blast
  from manifest_install_requires [OF h] h show ?thesis by blast
qed

text \<open>
  C8. The manifest carries MIT licensing and classifier metadata: whenever the module
  calls \<^verbatim>\<open>setup\<close>, the \<^verbatim>\<open>classifiers\<close> argument is the list of the Python 3
  language classifier, the classifier \<^verbatim>\<open>License :: OSI Approved :: MIT License\<close> and
  the OS-independence classifier, with no other entry.
\<close>

theorem manifest_classifiers:
  "setup_kwargs st d = Inr kw \<Longrightarrow>
     map_of kw ''classifiers'' = Some (StrList
       [py_str ''Programming Language :: Python :: 3'',
        py_str ''License :: OSI Approved :: MIT License'',
        py_str ''Operating System :: OS Independent''])"
  by (auto simp: setup_kwargs_def split: sum.splits)


theorem manifest_classifiers_witness:
  "\<exists>kw. setup_kwargs setuptools_default (checkout [] (ascii ''# panda_math'')) = Inr kw
     \<and> map_of kw ''classifiers'' = Some (StrList
       [py_str ''Programming Language :: Python :: 3'',
        py_str ''License :: OSI Approved :: MIT License'',
        py_str ''Operating System :: OS Independent''])"
proof -
  obtain kw where
    h: "setup_kwargs setuptools_default (checkout [] (ascii ''# panda_math'')) = Inr kw"
    using example_call by blast
  from manifest_classifiers [OF h] h show ?thesis by blast
qed

subsection \<open>The minimum Python version\<close>

lemma minimum_version_3_6: "minimum_version (py_str ''>=3.6'') = Some [3, 6]"
  by (simp add: minimum_version_def py_str_def digit_def)

lemma release_le_3_6:
  "release_le [3, 6] (major # minor # rest) = (3 < major \<or> (major = 3 \<and> 6 \<le> minor))"
  by auto

text \<open>
  C7. The manifest targets a minimum language runtime version: whenever the module calls
  \<^verbatim>\<open>setup\<close>, the \<^verbatim>\<open>python_requires\<close> argument is the constraint
  \<^verbatim>\<open>>=3.6\<close>, and a Python version \<open>major.minor...\<close> satisfies that argument exactly
  when it is at or above 3.6: every such version does, every version below 3.6 does not.
\<close>

theorem manifest_python_requires:
  "setup_kwargs st d = Inr kw \<Longrightarrow>
     map_of kw ''python_requires'' = Some (Str (py_str ''>=3.6''))
     \<and> (\<forall>spec major minor rest. map_of kw ''python_requires'' = Some (Str spec) \<longrightarrow>
           satisfies (major # minor # rest) spec
             = Some (3 < major \<or> (major = 3 \<and> 6 \<le> minor)))"
proof -
  assume "setup_kwargs st d = Inr kw"
  then have field: "map_of kw ''python_requires'' = Some (Str (py_str ''>=3.6''))"
    by (auto simp: setup_kwargs_def split: sum.splits)
  have "satisfies (major # minor # rest) (py_str ''>=3.6'')
          = Some (3 < major \<or> (major = 3 \<and> 6 \<le> minor))" for major minor rest
    unfolding satisfies_def minimum_version_3_6 using release_le_3_6 by simp
  with field show ?thesis by simp
qed

theorem manifest_python_requires_witness:
  "\<exists>kw. setup_kwargs setuptools_default (checkout [] (ascii ''# panda_math'')) = Inr kw
     \<and> map_of kw ''python_requires'' = Some (Str (py_str ''>=3.6''))
     \<and> satisfies [3, 6, 0] (py_str ''>=3.6'') = Some True
     \<and> satisfies [3, 12, 1] (py_str ''>=3.6'') = Some True
     \<and> satisfies [4, 0, 0] (py_str ''>=3.6'') = Some True
     \<and> satisfies [3, 5, 10] (py_str ''>=3.6'') = Some False
     \<and> satisfies [2, 7, 18] (py_str ''>=3.6'') = Some False"
proof -
  obtain kw where
    h: "setup_kwargs setuptools_default (checkout [] (ascii ''# panda_math'')) = Inr kw"
    using example_call by blast
  from manifest_python_requires [OF h] h show ?thesis by auto
qed

subsection \<open>The packages argument\<close>




subsection \<open>Reading \<^verbatim>\<open>README.md\<close>\<close>

text \<open>
  C3, as stated: if \<^verbatim>\<open>README.md\<close> does not exist, evaluation fails with a
  file-not-found error. On the repository as supplied \<^verbatim>\<open>README.md\<close> does not
  exist, and where no setuptools can be imported the evaluation fails at line 1 with
  \<^verbatim>\<open>ModuleNotFoundError\<close> instead.
\<close>

theorem missing_readme_without_setuptools:
  "map_of (cwd env_no_setuptools) ''README.md'' = None
   \<and> setup_py env_no_setuptools = Inl ModuleNotFoundError"
  by (simp add: setup_py_def env_no_setuptools_def repository_def)

text \<open>
  C3, amended: where the import of line 1 has found setuptools and
  \<^verbatim>\<open>find_packages()\<close> has returned, so that the evaluation reaches line 11: if
  \<^verbatim>\<open>README.md\<close> does not exist in the working directory, the evaluation of the
  arguments fails with \<^verbatim>\<open>FileNotFoundError\<close>, so \<^verbatim>\<open>setup\<close> is not called
  and the module ends with that error; if it is a regular file that the process can read
  and that decodes as UTF-8, \<^verbatim>\<open>setup\<close> is called and \<^verbatim>\<open>long_description\<close> is
  the text read from the file; and the call is made only if \<^verbatim>\<open>README.md\<close> is such
  a file.
\<close>

theorem readme_required:
  assumes "import_setuptools e (cwd e) = Some st" and "find_packages st (cwd e) = Inr pkgs"
  shows "(map_of (cwd e) ''README.md'' = None \<longrightarrow>
            setup_kwargs st (cwd e) = Inl FileNotFoundError \<and> setup_py e = Inl FileNotFoundError)
       \<and> (\<forall>bs text. map_of (cwd e) ''README.md'' = Some (File Readable bs)
              \<and> utf_8_decode bs = Some text \<longrightarrow>
            (\<exists>kw. setup_kwargs st (cwd e) = Inr kw
               \<and> map_of kw ''long_description'' = Some (Str (universal_newlines text))))
       \<and> ((\<exists>kw. setup_kwargs st (cwd e) = Inr kw) \<longleftrightarrow>
            (\<exists>bs text. map_of (cwd e) ''README.md'' = Some (File Readable bs)
               \<and> utf_8_decode bs = Some text))"
proof (intro conjI impI allI)
  assume "map_of (cwd e) ''README.md'' = None"
  then have "open_read (cwd e) ''README.md'' = Inl FileNotFoundError"
    by (simp add: open_read_def)
  with assms(2) show "setup_kwargs st (cwd e) = Inl FileNotFoundError"
    by (rule setup_kwargs_open_error)
  with assms(1) show "setup_py e = Inl FileNotFoundError"
    by (simp add: setup_py_def)
next
  fix bs t
  assume "map_of (cwd e) ''README.md'' = Some (File Readable bs) \<and> utf_8_decode bs = Some t"
  then have r: "open_read (cwd e) ''README.md'' = Inr (universal_newlines t)"
    by (simp add: open_read_def)
  from setup_kwargs_reached [OF assms(2) r] obtain kw where
    k: "setup_kwargs st (cwd e) = Inr kw" by blast
  from setup_kwargs_Inr [OF k] r
  have "map_of kw ''long_description'' = Some (Str (universal_newlines t))" by auto
  with k show "\<exists>kw. setup_kwargs st (cwd e) = Inr kw
      \<and> map_of kw ''long_description'' = Some (Str (universal_newlines t))" by blast
next
  show "(\<exists>kw. setup_kwargs st (cwd e) = Inr kw) \<longleftrightarrow>
     (\<exists>bs text. map_of (cwd e) ''README.md'' = Some (File Readable bs)
        \<and> utf_8_decode bs = Some text)"
  proof
    assume "\<exists>kw. setup_kwargs st (cwd e) = Inr kw"
    then obtain kw where k: "setup_kwargs st (cwd e) = Inr kw" ..
    from setup_kwargs_Inr [OF k] show
      "\<exists>bs text. map_of (cwd e) ''README.md'' = Some (File Readable bs)
         \<and> utf_8_decode bs = Some text"
      by (auto simp: open_read_Inr)
  next
    assume "\<exists>bs text. map_of (cwd e) ''README.md'' = Some (File Readable bs)
        \<and> utf_8_decode bs = Some text"
    then have "\<exists>t. open_read (cwd e) ''README.md'' = Inr t"
      by (auto simp: open_read_Inr)
    with assms(2) show "\<exists>kw. setup_kwargs st (cwd e) = Inr kw"
      by (auto dest: setup_kwargs_reached)
  qed
qed

theorem readme_required_witness:
  "setup_py env_repository = Inl FileNotFoundError
   \<and> (\<exists>kw. setup_kwargs setuptools_default (cwd env_checkout) = Inr kw
         \<and> map_of kw ''long_description'' = Some (Str (py_str ''# panda_math'')))"
proof -
  have i1: "import_setuptools env_repository (cwd env_repository) = Some setuptools_default"
    by (simp add: env_repository_def)
  have f1: "find_packages setuptools_default (cwd env_repository) = Inr []"
    by (simp add: env_repository_def find_packages_repository)
  have m1: "map_of (cwd env_repository) ''README.md'' = None"
    by (simp add: env_repository_def repository_def)
  have i2: "import_setuptools env_checkout (cwd env_checkout) = Some setuptools_default"
    by (simp add: env_checkout_def)
  have f2: "find_packages setuptools_default (cwd env_checkout) = Inr []"
    by (simp add: env_checkout_def find_packages_checkout)
  have m2: "map_of (cwd env_checkout) ''README.md''
        = Some (File Readable (ascii ''# panda_math''))
      \<and> utf_8_decode (ascii ''# panda_math'') = Some (py_str ''# panda_math'')"
    by (simp add: env_checkout_def checkout_def utf_8_decode_example)
  from readme_required [OF i1 f1] m1 readme_required [OF i2 f2] m2
  show ?thesis
    by (metis universal_newlines_example)
qed

subsection \<open>Errors of the module's own code\<close>

text \<open>
  C1, as stated: no error is raised by the module's own code in any environment. It fails
  on the repository as supplied, with setuptools installed: \<^verbatim>\<open>README.md\<close> is absent
  and the module's call of \<^verbatim>\<open>open\<close> raises \<^verbatim>\<open>FileNotFoundError\<close>.
\<close>

theorem missing_readme_raises:
  "setup_py env_repository = Inl FileNotFoundError \<and> own_error FileNotFoundError"
  by (simp add: setup_py_def setup_kwargs_def env_repository_def find_packages_repository
      open_read_repository)

text \<open>
  C1, amended: in every environment whose working directory holds a regular file
  \<^verbatim>\<open>README.md\<close> that the process can read and that decodes as UTF-8, no error is
  raised by the module's own code: an error that ends the evaluation there is the
  failed import of setuptools or an exception raised inside a setuptools function.
\<close>

theorem no_own_error_with_readme:
  "map_of (cwd e) ''README.md'' = Some (File Readable bs) \<Longrightarrow> utf_8_decode bs = Some t \<Longrightarrow>
     setup_py e = Inl x \<Longrightarrow>
     \<not> own_error x \<and> (x = ModuleNotFoundError \<or> (\<exists>n. x = SetuptoolsError n))"
  by (auto simp: setup_py_def setup_kwargs_def open_read_def
      split: option.splits sum.splits)

theorem no_own_error_with_readme_witness:
  "map_of (checkout [] (ascii ''# panda_math'')) ''README.md''
     = Some (File Readable (ascii ''# panda_math''))
   \<and> utf_8_decode (ascii ''# panda_math'') = Some (py_str ''# panda_math'')
   \<and> setup_py \<lparr>import_setuptools = (\<lambda>d. Some setuptools_failing),
                cwd = checkout [] (ascii ''# panda_math'')\<rparr>
        = Inl (SetuptoolsError ''DistutilsSetupError'')
   \<and> \<not> own_error (SetuptoolsError ''DistutilsSetupError'')"
proof -
  let ?e = "\<lparr>import_setuptools = (\<lambda>d. Some setuptools_failing),
             cwd = checkout [] (ascii ''# panda_math'')\<rparr>"
  have m: "map_of (cwd ?e) ''README.md'' = Some (File Readable (ascii ''# panda_math''))"
    by (simp add: checkout_def)
  have r: "setup_py ?e = Inl (SetuptoolsError ''DistutilsSetupError'')"
    by (simp add: setup_py_def setup_kwargs_def setuptools_failing_def setuptools_default_def
        open_read_checkout utf_8_decode_example)
  from no_own_error_with_readme [OF m utf_8_decode_example r] m r utf_8_decode_example
  show ?thesis by simp
qed

subsection \<open>Dependence on the working directory\<close>

text \<open>
  C2, as stated: any two file-system states give the same metadata. It fails on two
  checkouts that differ in the text of \<^verbatim>\<open>README.md\<close> only.
\<close>

theorem metadata_depends_on_readme:
  "setup_py \<lparr>import_setuptools = (\<lambda>d. Some setuptools_default),
             cwd = checkout [] (ascii ''a'')\<rparr>
     \<noteq> setup_py \<lparr>import_setuptools = (\<lambda>d. Some setuptools_default),
                cwd = checkout [] (ascii ''b'')\<rparr>"
  by (simp add: setup_py_def setup_kwargs_def setuptools_default_def open_read_checkout
      ascii_def)

text \<open>
  C2, amended: two arguments of the \<^verbatim>\<open>setup\<close> call are read from the file system,
  \<^verbatim>\<open>long_description\<close>, the text read from \<^verbatim>\<open>README.md\<close>, and
  \<^verbatim>\<open>packages\<close>, the result of \<^verbatim>\<open>find_packages()\<close>; the rest of the metadata is a
  function of the source text alone: in any two file-system states in which
  \<^verbatim>\<open>setup\<close> is called, the two calls have the same keywords and every argument
  other than \<^verbatim>\<open>packages\<close> and \<^verbatim>\<open>long_description\<close> is the same.
\<close>

theorem metadata_constant_but_two:
  assumes "setup_kwargs st1 d1 = Inr k1" and "setup_kwargs st2 d2 = Inr k2"
  shows "(\<exists>text pkgs. open_read d1 ''README.md'' = Inr text
            \<and> map_of k1 ''long_description'' = Some (Str text)
            \<and> find_packages st1 d1 = Inr pkgs
            \<and> map_of k1 ''packages'' = Some (StrList pkgs))
       \<and> map fst k1 = map fst k2
       \<and> (\<forall>key. key \<noteq> ''packages'' \<and> key \<noteq> ''long_description''
             \<longrightarrow> map_of k1 key = map_of k2 key)"
proof (intro conjI allI impI)
  from setup_kwargs_Inr [OF assms(1)]
  show "\<exists>text pkgs. open_read d1 ''README.md'' = Inr text
            \<and> map_of k1 ''long_description'' = Some (Str text)
            \<and> find_packages st1 d1 = Inr pkgs
            \<and> map_of k1 ''packages'' = Some (StrList pkgs)"
    by blast
next
  from assms show "map fst k1 = map fst k2"
    by (auto simp: setup_kwargs_def split: sum.splits)
next
  fix key :: string
  assume "key \<noteq> ''packages'' \<and> key \<noteq> ''long_description''"
  with assms show "map_of k1 key = map_of k2 key"
    by (auto simp: setup_kwargs_def split: sum.splits)
qed

theorem metadata_constant_but_two_witness:
  "\<exists>k1 k2. setup_kwargs setuptools_default (checkout [] (ascii ''a'')) = Inr k1
     \<and> setup_kwargs setuptools_default (checkout [] (ascii ''b'')) = Inr k2
     \<and> map_of k1 ''long_description'' = Some (Str (py_str ''a''))
     \<and> map_of k1 ''packages'' = Some (StrList [])
     \<and> map fst k1 = map fst k2
     \<and> map_of k1 ''name'' = map_of k2 ''name''"
proof -
  obtain k1 where k1: "setup_kwargs setuptools_default (checkout [] (ascii ''a'')) = Inr k1"
    using checkout_call [OF utf_8_decode_a] by blast
  obtain k2 where k2: "setup_kwargs setuptools_default (checkout [] (ascii ''b'')) = Inr k2"
    using checkout_call [OF utf_8_decode_b] by blast
  have rd: "open_read (checkout [] (ascii ''a'')) ''README.md'' = Inr (py_str ''a'')"
    by (simp add: open_read_checkout utf_8_decode_a py_str_def)
  have fp: "find_packages setuptools_default (checkout [] (ascii ''a'')) = Inr []"
    by (rule find_packages_checkout)
  note t = metadata_constant_but_two [OF k1 k2]
  from t [THEN conjunct1] obtain text' pkgs where
    r: "open_read (checkout [] (ascii ''a'')) ''README.md'' = Inr text'"
       "map_of k1 ''long_description'' = Some (Str text')"
       "find_packages setuptools_default (checkout [] (ascii ''a'')) = Inr pkgs"
       "map_of k1 ''packages'' = Some (StrList pkgs)"
    by blast
  from r(1) rd have "text' = py_str ''a''" by simp
  with r(2) have ld: "map_of k1 ''long_description'' = Some (Str (py_str ''a''))" by simp
  from r(3) fp have "pkgs = []" by simp
  with r(4) have pk: "map_of k1 ''packages'' = Some (StrList [])" by simp
  note ks = t [THEN conjunct2, THEN conjunct1]
  from t [THEN conjunct2, THEN conjunct2, THEN spec, of "''name''"]
  have nm: "map_of k1 ''name'' = map_of k2 ''name''"
    by simp
  show ?thesis
    by (rule exI [of _ k1], rule exI [of _ k2]) (simp only: k1 k2 ld pk ks nm simp_thms)
qed

end
